theory Spec2Isabelle
  imports Main
begin

section \<open>The notify_credentials management command\<close>

text \<open>
  A shallow embedding of
  \<^verbatim>\<open>openedx/core/djangoapps/credentials/management/commands/notify_credentials.py\<close>.
  The command collects options, resolves them (from the command line or from the
  persisted \<^verbatim>\<open>NotifyCredentialsConfig\<close> record), validates them and hands one job
  to the task queue. Everything the module imports from elsewhere
  (\<^verbatim>\<open>dateutil.parser.parse\<close>, \<^verbatim>\<open>CourseKey.from_string\<close>, \<^verbatim>\<open>shlex.split\<close>, the
  argument parser built by Django from \<^verbatim>\<open>add_arguments\<close>, the clock and the
  configuration record) is a parameter of the model; an exception or a process
  exit is a value of type \<open>failure\<close>.
\<close>

subsection \<open>Failures\<close>

text \<open>
  \<^verbatim>\<open>CommandError(msg)\<close> is the exception Django reports to the caller of a
  management command; \<^verbatim>\<open>sys.exit(n)\<close> leaves the process with status \<open>n\<close>;
  the remaining constructors are what the library calls can raise.
\<close>

datatype failure =
    CommandError string
  | SystemExit int
  | ValueError
  | OverflowError

subsection \<open>Dates and times\<close>

text \<open>
  A \<^verbatim>\<open>datetime\<close>: the calendar date as its proleptic Gregorian ordinal
  (\<^verbatim>\<open>toordinal()\<close>, day 1 is 0001-01-01), the time of day, and \<^verbatim>\<open>tzinfo\<close>,
  which is \<open>None\<close> for a naive value. \<open>UTC\<close> is \<^verbatim>\<open>pytz.UTC\<close>; any other time
  zone object is a name with its offset in seconds.
\<close>

datatype tzinfo = UTC | Tz string int

record datetime =
  ordinal :: int
  hour :: int
  minute :: int
  second :: int
  microsecond :: int
  tzinfo :: "tzinfo option"

definition MAXORDINAL :: int where
  "MAXORDINAL = 3652059"

text \<open>The ranges a \<^verbatim>\<open>datetime\<close> object keeps its fields in.\<close>

definition valid_datetime :: "datetime \<Rightarrow> bool" where
  "valid_datetime dt =
     (1 \<le> ordinal dt \<and> ordinal dt \<le> MAXORDINAL \<and>
      0 \<le> hour dt \<and> hour dt < 24 \<and>
      0 \<le> minute dt \<and> minute dt < 60 \<and>
      0 \<le> second dt \<and> second dt < 60 \<and>
      0 \<le> microsecond dt \<and> microsecond dt < 1000000)"

text \<open>
  \<^verbatim>\<open>dt - timedelta(hours=h)\<close>, as \<^verbatim>\<open>datetime.__add__\<close> computes it: the date and
  the time of day become one duration (days, seconds), the hours are taken off,
  the duration is normalised with floor division, and a day outside
  \<open>1..MAXORDINAL\<close> raises \<^verbatim>\<open>OverflowError\<close>. Microseconds and \<^verbatim>\<open>tzinfo\<close> are
  kept.
\<close>

definition minus_hours :: "datetime \<Rightarrow> int \<Rightarrow> failure + datetime" where
  "minus_hours dt h =
     (let total = hour dt * 3600 + minute dt * 60 + second dt - h * 3600;
          d = ordinal dt + total div 86400;
          s = total mod 86400
      in if 0 < d \<and> d \<le> MAXORDINAL
         then Inr (dt\<lparr>ordinal := d, hour := s div 3600,
                      minute := (s mod 3600) div 60, second := s mod 60\<rparr>)
         else Inl OverflowError)"

text \<open>
  The position of a datetime on its own wall clock, in microseconds since the
  midnight before day 1. It is used only to say how far apart two datetimes are.
\<close>

definition wall_clock_us :: "datetime \<Rightarrow> int" where
  "wall_clock_us dt =
     (((ordinal dt * 24 + hour dt) * 60 + minute dt) * 60 + second dt) * 1000000
       + microsecond dt"

text \<open>
  \<^verbatim>\<open>
  def parsetime(timestr):
      dt = dateutil.parser.parse(timestr)
      if dt.tzinfo is None:
          dt = dt.replace(tzinfo=UTC)
      return dt
  \<close>
  The first argument stands for \<^verbatim>\<open>dateutil.parser.parse\<close>; what it raises on
  a string it rejects goes through unchanged.
\<close>

definition parsetime ::
  "(string \<Rightarrow> failure + datetime) \<Rightarrow> string \<Rightarrow> failure + datetime" where
  "parsetime dateutil_parse timestr =
     (case dateutil_parse timestr of
        Inl e \<Rightarrow> Inl e
      | Inr dt \<Rightarrow>
          Inr (if tzinfo dt = None then dt\<lparr>tzinfo := Some UTC\<rparr> else dt))"

subsection \<open>Options\<close>

text \<open>
  The options dictionary, one field per argument of \<^verbatim>\<open>add_arguments\<close>:
  \<^verbatim>\<open>store_true\<close> flags are booleans, \<^verbatim>\<open>--site\<close> defaults to \<open>None\<close>,
  \<^verbatim>\<open>--courses\<close> and \<^verbatim>\<open>--user_ids\<close> (\<^verbatim>\<open>nargs='+'\<close>) are lists of strings or
  \<open>None\<close>, the two dates are parsed by \<open>parsetime\<close> or \<open>None\<close>, \<^verbatim>\<open>--page-size\<close>
  is an integer. \<^verbatim>\<open>--delay\<close> is a float (or the integer default 0): the command
  only carries it, so its type is the parameter \<open>'f\<close>. The keys Django itself adds
  to every command (verbosity, settings, ...) live in the record's extension.
\<close>

record 'f options =
  dry_run :: bool
  site :: "string option"
  courses :: "string list option"
  start_date :: "datetime option"
  end_date :: "datetime option"
  delay :: 'f
  page_size :: int
  auto :: bool
  args_from_database :: bool
  verbose :: bool
  notify_programs :: bool
  user_ids :: "string list option"

text \<open>Truth value of an optional list: \<open>None\<close> and the empty list are false.\<close>

definition truthy :: "'a list option \<Rightarrow> bool" where
  "truthy v = (case v of None \<Rightarrow> False | Some xs \<Rightarrow> xs \<noteq> [])"

subsection \<open>The world outside the command\<close>

text \<open>The persisted \<^verbatim>\<open>NotifyCredentialsConfig\<close> record, as far as the command reads it.\<close>

record notify_credentials_config =
  enabled :: bool
  arguments :: string

text \<open>
  What the command asks of its collaborators:
  \<^item> \<open>from_string\<close>: \<^verbatim>\<open>CourseKey.from_string\<close>, \<open>None\<close> when it raises
    \<^verbatim>\<open>InvalidKeyError\<close>;
  \<^item> \<open>current_config\<close>: \<^verbatim>\<open>NotifyCredentialsConfig.current()\<close>;
  \<^item> \<open>shlex_split\<close>: \<^verbatim>\<open>shlex.split\<close>;
  \<^item> \<open>parse_args\<close>: \<^verbatim>\<open>self.create_parser('manage.py', 'notify_credentials').parse_args\<close>
    followed by \<^verbatim>\<open>__dict__\<close>;
  \<^item> \<open>now\<close>: the value \<^verbatim>\<open>datetime.now()\<close> returns during this run.
\<close>

record ('k, 'f, 'z) env =
  from_string :: "string \<Rightarrow> 'k option"
  current_config :: notify_credentials_config
  shlex_split :: "string \<Rightarrow> failure + string list"
  parse_args :: "string list \<Rightarrow> failure + ('f, 'z) options_scheme"
  now :: datetime

text \<open>
  The log records the command writes, each with the arguments of its format
  string, and the state the command acts on: the task queue (one entry per
  \<^verbatim>\<open>handle_notify_credentials.delay(options, course_keys)\<close>) and the log.
\<close>

datatype 'f log_record =
    Info_starting bool "string option" 'f int "datetime option" "datetime option"
      bool "string list option" bool
  | Info_courses_specified nat "string list"
  | Fatal_not_parseable string

record ('k, 'f, 'z) world =
  task_queue :: "(('f, 'z) options_scheme \<times> 'k list) list"
  log_records :: "'f log_record list"

definition log_write ::
  "'f log_record \<Rightarrow> ('k, 'f, 'z) world \<Rightarrow> ('k, 'f, 'z) world" where
  "log_write r w = w\<lparr>log_records := log_records w @ [r]\<rparr>"

definition task_delay ::
  "('f, 'z) options_scheme \<Rightarrow> 'k list \<Rightarrow> ('k, 'f, 'z) world \<Rightarrow> ('k, 'f, 'z) world" where
  "task_delay options course_keys w =
     w\<lparr>task_queue := task_queue w @ [(options, course_keys)]\<rparr>"

subsection \<open>The command\<close>

text \<open>The two messages the command raises \<^verbatim>\<open>CommandError\<close> with.\<close>

abbreviation disabled_message :: string where
  "disabled_message \<equiv>
     ''NotifyCredentialsConfig is disabled, but --args-from-database was requested.''"

abbreviation no_filter_message :: string where
  "no_filter_message \<equiv>
     ''You must specify a filter (e.g. --courses= or --start-date or --user_ids)''"

text \<open>
  \<^verbatim>\<open>
  def get_args_from_database(self):
      config = NotifyCredentialsConfig.current()
      if not config.enabled:
          raise CommandError('NotifyCredentialsConfig is disabled, but --args-from-database was requested.')
      argv = shlex.split(config.arguments)
      parser = self.create_parser('manage.py', 'notify_credentials')
      return parser.parse_args(argv).__dict__
  \<close>
\<close>

definition get_args_from_database ::
  "('k, 'f, 'z) env \<Rightarrow> failure + ('f, 'z) options_scheme" where
  "get_args_from_database e =
     (let config = current_config e in
      if \<not> enabled config
      then Inl (CommandError disabled_message)
      else (case shlex_split e (arguments config) of
              Inl err \<Rightarrow> Inl err
            | Inr argv \<Rightarrow> parse_args e argv))"

text \<open>
  The loop of \<^verbatim>\<open>get_course_keys\<close>:
  \<^verbatim>\<open>
  for course_id in courses:
      try:
          course_keys.append(CourseKey.from_string(course_id))
      except InvalidKeyError:
          log.fatal("%s is not a parseable CourseKey", course_id)
          sys.exit(1)
  \<close>
\<close>

fun course_keys_loop ::
  "(string \<Rightarrow> 'k option) \<Rightarrow> string list \<Rightarrow> 'k list \<Rightarrow> ('k, 'f, 'z) world \<Rightarrow>
     (failure + 'k list) \<times> ('k, 'f, 'z) world" where
  "course_keys_loop parse [] course_keys w = (Inr course_keys, w)"
| "course_keys_loop parse (course_id # rest) course_keys w =
     (case parse course_id of
        Some k \<Rightarrow> course_keys_loop parse rest (course_keys @ [k]) w
      | None \<Rightarrow> (Inl (SystemExit 1), log_write (Fatal_not_parseable course_id) w))"

text \<open>
  \<^verbatim>\<open>
  def get_course_keys(self, courses=None):
      if not courses:
          courses = []
      course_keys = []
      log.info("%d courses specified: %s", len(courses), ", ".join(courses))
      for course_id in courses: ...
      return course_keys
  \<close>
\<close>

definition get_course_keys ::
  "(string \<Rightarrow> 'k option) \<Rightarrow> string list option \<Rightarrow> ('k, 'f, 'z) world \<Rightarrow>
     (failure + 'k list) \<times> ('k, 'f, 'z) world" where
  "get_course_keys parse courses_arg w =
     (let cs = (if \<not> truthy courses_arg then [] else the courses_arg);
          w1 = log_write (Info_courses_specified (length cs) cs) w
      in course_keys_loop parse cs [] w1)"

text \<open>
  Lines 145 to 150 of \<^verbatim>\<open>handle\<close>, the options the rest of the run works with:
  \<^verbatim>\<open>
  if options['args_from_database']:
      options = self.get_args_from_database()
  if options['auto']:
      options['end_date'] = datetime.now().replace(minute=0, second=0, microsecond=0)
      options['start_date'] = options['end_date'] - timedelta(hours=4)
  \<close>
\<close>

definition database_or_command_line ::
  "('k, 'f, 'z) env \<Rightarrow> ('f, 'z) options_scheme \<Rightarrow> failure + ('f, 'z) options_scheme" where
  "database_or_command_line e options =
     (if args_from_database options then get_args_from_database e else Inr options)"

definition auto_window ::
  "datetime \<Rightarrow> ('f, 'z) options_scheme \<Rightarrow> failure + ('f, 'z) options_scheme" where
  "auto_window clock options =
     (if auto options
      then (let end_dt = clock\<lparr>minute := 0, second := 0, microsecond := 0\<rparr> in
            case minus_hours end_dt 4 of
              Inl err \<Rightarrow> Inl err
            | Inr start_dt \<Rightarrow>
                Inr (options\<lparr>end_date := Some end_dt, start_date := Some start_dt\<rparr>))
      else Inr options)"

definition resolve_options ::
  "('k, 'f, 'z) env \<Rightarrow> ('f, 'z) options_scheme \<Rightarrow> failure + ('f, 'z) options_scheme" where
  "resolve_options e options =
     (case database_or_command_line e options of
        Inl err \<Rightarrow> Inl err
      | Inr options1 \<Rightarrow> auto_window (now e) options1)"

text \<open>
  \<^verbatim>\<open>handle\<close>: resolve the options, log the start of the run, parse the course
  keys, refuse a run with no filter, and enqueue the task. Nothing is logged or
  enqueued before the options are resolved, so a failure there leaves the state
  as it was.
  \<^verbatim>\<open>
  log.info("notify_credentials starting, dry-run=%s, site=%s, delay=%d seconds, ...",
      options['dry_run'], options['site'], options['delay'], options['page_size'],
      options['start_date'] if options['start_date'] else 'NA',
      options['end_date'] if options['end_date'] else 'NA',
      options['notify_programs'], options['user_ids'],
      'auto' if options['auto'] else 'manual')
  course_keys = self.get_course_keys(options['courses'])
  if not (course_keys or options['start_date'] or options['end_date'] or options['user_ids']):
      raise CommandError('You must specify a filter (e.g. --courses= or --start-date or --user_ids)')
  handle_notify_credentials.delay(options, course_keys)
  \<close>
  A datetime is always true in Python, so a date option is true exactly when it
  is not \<open>None\<close>.
\<close>

definition handle ::
  "('k, 'f, 'z) env \<Rightarrow> ('f, 'z) options_scheme \<Rightarrow> ('k, 'f, 'z) world \<Rightarrow>
     (failure + unit) \<times> ('k, 'f, 'z) world" where
  "handle e cmdline w =
     (case resolve_options e cmdline of
        Inl err \<Rightarrow> (Inl err, w)
      | Inr options \<Rightarrow>
          (let w1 = log_write
                 (Info_starting (dry_run options) (site options) (delay options)
                    (page_size options) (start_date options) (end_date options)
                    (notify_programs options) (user_ids options) (auto options)) w
           in case get_course_keys (from_string e) (courses options) w1 of
                (Inl err, w2) \<Rightarrow> (Inl err, w2)
              | (Inr course_keys, w2) \<Rightarrow>
                  if \<not> (course_keys \<noteq> [] \<or> start_date options \<noteq> None
                        \<or> end_date options \<noteq> None \<or> truthy (user_ids options))
                  then (Inl (CommandError no_filter_message), w2)
                  else (Inr (), task_delay options course_keys w2)))"

subsection \<open>A concrete environment\<close>

text \<open>
  The defaults \<^verbatim>\<open>add_arguments\<close> gives every option, and one small environment
  on which the command can be run: course identifiers of the \<^verbatim>\<open>course-v1:\<close>
  form parse (to themselves), the persisted record is enabled with an empty
  arguments string, and \<open>shlex_split\<close> and \<open>parse_args\<close> are given on the few
  inputs used below (elsewhere they fail).
\<close>

definition default_options :: "int options" where
  "default_options =
     \<lparr>dry_run = False, site = None, courses = None, start_date = None,
      end_date = None, delay = 0, page_size = 100, auto = False,
      args_from_database = False, verbose = False, notify_programs = False,
      user_ids = None\<rparr>"

definition sample_from_string :: "string \<Rightarrow> string option" where
  "sample_from_string s = (if take 10 s = ''course-v1:'' then Some s else None)"

definition sample_shlex_split :: "string \<Rightarrow> failure + string list" where
  "sample_shlex_split s =
     (if s = [] then Inr []
      else if s = ''--dry-run'' then Inr [''--dry-run'']
      else Inl ValueError)"

definition sample_parse_args :: "string list \<Rightarrow> failure + int options" where
  "sample_parse_args argv =
     (if argv = [] then Inr default_options
      else if argv = [''--dry-run''] then Inr (default_options\<lparr>dry_run := True\<rparr>)
      else Inl (SystemExit 2))"

definition sample_now :: datetime where
  "sample_now =
     \<lparr>ordinal = 738000, hour = 2, minute = 41, second = 7, microsecond = 125000,
      tzinfo = None\<rparr>"

definition sample_env :: "(string, int, unit) env" where
  "sample_env =
     \<lparr>from_string = sample_from_string,
      current_config = \<lparr>enabled = True, arguments = []\<rparr>,
      shlex_split = sample_shlex_split,
      parse_args = sample_parse_args,
      now = sample_now\<rparr>"

definition empty_world :: "(string, int, unit) world" where
  "empty_world = \<lparr>task_queue = [], log_records = []\<rparr>"


text \<open>
  \<^verbatim>\<open>dt.replace(minute=0, second=0, microsecond=0)\<close>, the start of the hour of
  \<open>dt\<close>, written as in \<open>auto_window\<close>.
\<close>

abbreviation hour_start :: "datetime \<Rightarrow> datetime" where
  "hour_start dt \<equiv> dt\<lparr>minute := 0, second := 0, microsecond := 0\<rparr>"

section \<open>Properties\<close>

subsection \<open>The loop over the course identifiers\<close>

lemma loop_all_parse:
  "\<forall>c\<in>set cs. parse c \<noteq> None \<Longrightarrow>
     course_keys_loop parse cs acc w = (Inr (acc @ map (the \<circ> parse) cs), w)"
  by (induction cs arbitrary: acc) auto

lemma loop_some_invalid:
  "\<exists>c\<in>set cs. parse c = None \<Longrightarrow>
     fst (course_keys_loop parse cs acc w) = Inl (SystemExit 1)"
  by (induction cs arbitrary: acc) (auto split: option.splits)

lemma loop_queue:
  "task_queue (snd (course_keys_loop parse cs acc w)) = task_queue w"
  by (induction cs arbitrary: acc) (auto simp: log_write_def split: option.splits)

lemma loop_fst_world:
  "fst (course_keys_loop parse cs acc w) = fst (course_keys_loop parse cs acc w')"
  by (induction cs arbitrary: acc) (auto split: option.splits)

lemma loop_failure:
  "fst (course_keys_loop parse cs acc w) = Inl err \<Longrightarrow> err = SystemExit 1"
  by (induction cs arbitrary: acc) (auto split: option.splits)

lemma get_course_keys_fst_world:
  "fst (get_course_keys parse c w) = fst (get_course_keys parse c w')"
  unfolding get_course_keys_def Let_def by (rule loop_fst_world)

lemma get_course_keys_queue:
  "task_queue (snd (get_course_keys parse c w)) = task_queue w"
  unfolding get_course_keys_def Let_def by (simp add: loop_queue log_write_def)

lemma get_course_keys_Inr:
  assumes "fst (get_course_keys parse c w0) = Inr keys"
  shows "\<exists>w2. get_course_keys parse c w = (Inr keys, w2) \<and> task_queue w2 = task_queue w"
proof -
  have "fst (get_course_keys parse c w) = Inr keys"
    using assms get_course_keys_fst_world[of parse c w w0] by simp
  moreover have "task_queue (snd (get_course_keys parse c w)) = task_queue w"
    by (rule get_course_keys_queue)
  ultimately show ?thesis
    by (cases "get_course_keys parse c w") auto
qed

lemma get_course_keys_failure:
  "fst (get_course_keys parse c w) = Inl err \<Longrightarrow> err = SystemExit 1"
  unfolding get_course_keys_def Let_def by (rule loop_failure)

subsection \<open>The run after the options are resolved\<close>

lemma handle_resolved:
  "resolve_options e cmdline = Inr options \<Longrightarrow>
   handle e cmdline w =
     (let w1 = log_write
            (Info_starting (dry_run options) (site options) (delay options)
               (page_size options) (start_date options) (end_date options)
               (notify_programs options) (user_ids options) (auto options)) w
      in case get_course_keys (from_string e) (courses options) w1 of
           (Inl err, w2) \<Rightarrow> (Inl err, w2)
         | (Inr course_keys, w2) \<Rightarrow>
             if \<not> (course_keys \<noteq> [] \<or> start_date options \<noteq> None
                   \<or> end_date options \<noteq> None \<or> truthy (user_ids options))
             then (Inl (CommandError no_filter_message), w2)
             else (Inr (), task_delay options course_keys w2))"
  by (simp add: handle_def)

lemma handle_failure_queue:
  "handle e cmdline w = (Inl err, w') \<Longrightarrow> task_queue w' = task_queue w"
proof (cases "resolve_options e cmdline")
  case (Inl a)
  assume "handle e cmdline w = (Inl err, w')"
  with Inl show ?thesis by (simp add: handle_def)
next
  case (Inr options)
  assume h: "handle e cmdline w = (Inl err, w')"
  let ?w1 = "log_write
            (Info_starting (dry_run options) (site options) (delay options)
               (page_size options) (start_date options) (end_date options)
               (notify_programs options) (user_ids options) (auto options)) w"
  obtain r w2 where g: "get_course_keys (from_string e) (courses options) ?w1 = (r, w2)"
    by (cases "get_course_keys (from_string e) (courses options) ?w1")
  have "task_queue w2 = task_queue ?w1"
    using get_course_keys_queue[of "from_string e" "courses options" ?w1] g by simp
  then have q: "task_queue w2 = task_queue w" by (simp add: log_write_def)
  from h Inr g have "w' = w2"
    by (auto simp: handle_resolved Let_def split: sum.splits if_splits)
  with q show ?thesis by simp
qed

lemma handle_with_start_date:
  assumes "resolve_options e cmdline = Inr options" and "start_date options \<noteq> None"
  shows "fst (handle e cmdline w) \<noteq> Inl (CommandError msg)"
proof -
  let ?w1 = "log_write
            (Info_starting (dry_run options) (site options) (delay options)
               (page_size options) (start_date options) (end_date options)
               (notify_programs options) (user_ids options) (auto options)) w"
  obtain r w2 where g: "get_course_keys (from_string e) (courses options) ?w1 = (r, w2)"
    by (cases "get_course_keys (from_string e) (courses options) ?w1")
  show ?thesis
  proof (cases r)
    case (Inl err)
    with g have "fst (get_course_keys (from_string e) (courses options) ?w1) = Inl err"
      by simp
    then have "err = SystemExit 1" by (rule get_course_keys_failure)
    with Inl g assms(1) show ?thesis by (simp add: handle_resolved Let_def)
  next
    case (Inr keys)
    with g assms show ?thesis by (simp add: handle_resolved Let_def)
  qed
qed

lemma handle_success:
  assumes "handle e cmdline w = (Inr (), w')"
  shows "\<exists>options course_keys. resolve_options e cmdline = Inr options \<and>
           task_queue w' = task_queue w @ [(options, course_keys)]"
proof (cases "resolve_options e cmdline")
  case (Inl err)
  with assms show ?thesis by (simp add: handle_def)
next
  case (Inr options)
  let ?w1 = "log_write
            (Info_starting (dry_run options) (site options) (delay options)
               (page_size options) (start_date options) (end_date options)
               (notify_programs options) (user_ids options) (auto options)) w"
  obtain r w2 where g: "get_course_keys (from_string e) (courses options) ?w1 = (r, w2)"
    by (cases "get_course_keys (from_string e) (courses options) ?w1")
  have q: "task_queue w2 = task_queue w"
    using get_course_keys_queue [of "from_string e" "courses options" ?w1] g
    by (simp add: log_write_def)
  from assms Inr g obtain keys where "r = Inr keys" and "w' = task_delay options keys w2"
    by (cases r) (auto simp: handle_resolved Let_def split: if_splits)
  with q Inr show ?thesis by (simp add: task_delay_def)
qed

subsection \<open>Four hours earlier\<close>

lemma seconds_split_late:
  fixes h :: int
  assumes "4 \<le> h" "h < 24"
  shows "(h * 3600 - 14400) div 86400 = 0"
    and "(h * 3600 - 14400) mod 86400 = (h - 4) * 3600"
proof -
  have a: "h * 3600 - 14400 = 86400 * 0 + (h - 4) * 3600" by simp
  have b: "0 \<le> (h - 4) * 3600" using assms by simp
  have c: "(h - 4) * 3600 < 86400" using assms by simp
  show "(h * 3600 - 14400) div 86400 = 0" by (rule int_div_pos_eq [OF a b c])
  show "(h * 3600 - 14400) mod 86400 = (h - 4) * 3600" by (rule int_mod_pos_eq [OF a b c])
qed

lemma seconds_split_early:
  fixes h :: int
  assumes "0 \<le> h" "h < 4"
  shows "(h * 3600 - 14400) div 86400 = - 1"
    and "(h * 3600 - 14400) mod 86400 = (h + 20) * 3600"
proof -
  have a: "h * 3600 - 14400 = 86400 * (- 1) + (h + 20) * 3600" by simp
  have b: "0 \<le> (h + 20) * 3600" using assms by simp
  have c: "(h + 20) * 3600 < 86400" using assms by simp
  show "(h * 3600 - 14400) div 86400 = - 1" by (rule int_div_pos_eq [OF a b c])
  show "(h * 3600 - 14400) mod 86400 = (h + 20) * 3600" by (rule int_mod_pos_eq [OF a b c])
qed

lemma whole_hours:
  fixes k :: int
  shows "k * 3600 div 3600 = k" and "k * 3600 mod 3600 div 60 = 0" and "k * 3600 mod 60 = 0"
proof -
  show "k * 3600 div 3600 = k" by simp
  show "k * 3600 mod 3600 div 60 = 0" by simp
  have "k * 3600 = 60 * (k * 60) + 0" by simp
  from int_mod_pos_eq [OF this] show "k * 3600 mod 60 = 0" by simp
qed

lemma minus_four_hours:
  assumes "0 \<le> hour dt" "hour dt < 24" "minute dt = 0" "second dt = 0"
    and "1 \<le> ordinal dt" "ordinal dt \<le> MAXORDINAL" "1 < ordinal dt \<or> 4 \<le> hour dt"
  shows "minus_hours dt 4 =
           Inr (if 4 \<le> hour dt then dt\<lparr>hour := hour dt - 4\<rparr>
                else dt\<lparr>ordinal := ordinal dt - 1, hour := hour dt + 20\<rparr>)"
proof (cases "4 \<le> hour dt")
  case True
  note s = seconds_split_late [OF True assms(2)]
  show ?thesis
    using True assms(3-6) s whole_hours [of "hour dt - 4"]
    by (cases dt) (simp add: minus_hours_def Let_def)
next
  case False
  then have lt: "hour dt < 4" by simp
  note s = seconds_split_early [OF assms(1) lt]
  from False assms(7) have "1 < ordinal dt" by simp
  then show ?thesis
    using False assms(3-6) s whole_hours [of "hour dt + 20"]
    by (cases dt) (simp add: minus_hours_def Let_def)
qed

subsection \<open>The job a run enqueues\<close>

lemma handle_enqueues:
  assumes "resolve_options e cmdline = Inr options"
    and "fst (get_course_keys (from_string e) (courses options) w0) = Inr course_keys"
    and "course_keys \<noteq> [] \<or> start_date options \<noteq> None
           \<or> end_date options \<noteq> None \<or> truthy (user_ids options)"
  shows "\<exists>w'. handle e cmdline w = (Inr (), w') \<and>
               task_queue w' = task_queue w @ [(options, course_keys)]"
proof -
  let ?w1 = "log_write
            (Info_starting (dry_run options) (site options) (delay options)
               (page_size options) (start_date options) (end_date options)
               (notify_programs options) (user_ids options) (auto options)) w"
  from get_course_keys_Inr [OF assms(2), of ?w1] obtain w2 where
    g: "get_course_keys (from_string e) (courses options) ?w1 = (Inr course_keys, w2)"
    and q: "task_queue w2 = task_queue ?w1"
    by blast
  have "handle e cmdline w = (Inr (), task_delay options course_keys w2)"
    using assms(1) assms(3) g by (simp add: handle_resolved Let_def)
  moreover have "task_queue (task_delay options course_keys w2)
                   = task_queue w @ [(options, course_keys)]"
    using q by (simp add: task_delay_def log_write_def)
  ultimately show ?thesis by blast
qed

lemma handle_enqueues_window:
  assumes "auto_window (now e) opts = Inr (opts\<lparr>end_date := Some d, start_date := Some s\<rparr>)"
    and "resolve_options e cmdline = auto_window (now e) opts"
    and "fst (get_course_keys (from_string e) (courses opts) w0) = Inr course_keys"
  shows "\<exists>w'. handle e cmdline w = (Inr (), w') \<and>
           task_queue w' = task_queue w
             @ [(opts\<lparr>end_date := Some d, start_date := Some s\<rparr>, course_keys)]"
proof -
  let ?r = "opts\<lparr>end_date := Some d, start_date := Some s\<rparr>"
  from assms(1,2) have r: "resolve_options e cmdline = Inr ?r" by simp
  have k: "fst (get_course_keys (from_string e) (courses ?r) w0) = Inr course_keys"
    using assms(3) by simp
  have f: "course_keys \<noteq> [] \<or> start_date ?r \<noteq> None
           \<or> end_date ?r \<noteq> None \<or> truthy (user_ids ?r)"
    by simp
  from handle_enqueues [OF r k f] show ?thesis .
qed

lemma auto_window_off: "\<not> auto opts \<Longrightarrow> auto_window clock opts = Inr opts"
  by (simp add: auto_window_def)

lemma auto_window_on:
  "auto opts \<Longrightarrow> minus_hours (hour_start clock) 4 = Inr s \<Longrightarrow>
     auto_window clock opts
       = Inr (opts\<lparr>end_date := Some (hour_start clock), start_date := Some s\<rparr>)"
  by (simp add: auto_window_def Let_def)

lemma auto_window_result:
  "auto_window clock opts = Inr r \<Longrightarrow>
     (\<not> auto opts \<longrightarrow> r = opts) \<and>
     (auto opts \<longrightarrow>
        (\<exists>s. minus_hours (hour_start clock) 4 = Inr s \<and>
             r = opts\<lparr>end_date := Some (hour_start clock), start_date := Some s\<rparr>))"
  by (auto simp: auto_window_def Let_def split: if_splits sum.splits)

lemma resolve_command_line:
  "\<not> args_from_database cmdline \<Longrightarrow>
     resolve_options e cmdline = auto_window (now e) cmdline"
  by (simp add: resolve_options_def database_or_command_line_def)




subsection \<open>Evaluating a run of the concrete environment\<close>

text \<open>The definitions a concrete run unfolds to.\<close>

lemmas run_defs =
  handle_def resolve_options_def database_or_command_line_def auto_window_def
  get_args_from_database_def get_course_keys_def truthy_def Let_def log_write_def
  task_delay_def minus_hours_def MAXORDINAL_def
  sample_env_def sample_from_string_def sample_shlex_split_def sample_parse_args_def
  sample_now_def default_options_def empty_world_def

subsection \<open>No filter\<close>

text \<open>
  Claim C1. Whenever the options resolve and no filter is left (the resolved list of
  course keys is empty, \<^verbatim>\<open>start_date\<close>, \<^verbatim>\<open>end_date\<close> and \<^verbatim>\<open>user_ids\<close> are
  unset), \<^verbatim>\<open>handle\<close> raises \<^verbatim>\<open>CommandError\<close> with the message asking for a
  filter. The course keys do not depend on the log, so the state in which they are
  computed is arbitrary.
\<close>

theorem handle_no_filter_raises_command_error:
  assumes "resolve_options e cmdline = Inr options"
    and "fst (get_course_keys (from_string e) (courses options) w0) = Inr []"
    and "start_date options = None"
    and "end_date options = None"
    and "user_ids options = None"
  shows "fst (handle e cmdline w) = Inl (CommandError no_filter_message)"
proof -
  let ?w1 = "log_write
            (Info_starting (dry_run options) (site options) (delay options)
               (page_size options) (start_date options) (end_date options)
               (notify_programs options) (user_ids options) (auto options)) w"
  have "fst (get_course_keys (from_string e) (courses options) ?w1) = Inr []"
    using assms(2) get_course_keys_fst_world[of "from_string e" "courses options" ?w1 w0]
    by simp
  then obtain w2 where
    "get_course_keys (from_string e) (courses options) ?w1 = (Inr [], w2)"
    by (cases "get_course_keys (from_string e) (courses options) ?w1") auto
  then show ?thesis
    using assms by (simp add: handle_resolved Let_def truthy_def)
qed

text \<open>The defaults alone, on the command line, are such a run.\<close>

theorem handle_no_filter_raises_command_error_witness:
  "resolve_options sample_env default_options = Inr default_options \<and>
   fst (get_course_keys (from_string sample_env) (courses default_options) empty_world) = Inr [] \<and>
   start_date default_options = None \<and> end_date default_options = None \<and>
   user_ids default_options = None \<and>
   fst (handle sample_env default_options empty_world) = Inl (CommandError no_filter_message)"
proof -
  have r: "resolve_options sample_env default_options = Inr default_options"
    by (simp add: resolve_options_def database_or_command_line_def auto_window_def
        default_options_def)
  have k: "fst (get_course_keys (from_string sample_env) (courses default_options) empty_world)
             = Inr []"
    by (simp add: get_course_keys_def truthy_def default_options_def)
  have s: "start_date default_options = None" by (simp add: default_options_def)
  have t: "end_date default_options = None" by (simp add: default_options_def)
  have u: "user_ids default_options = None" by (simp add: default_options_def)
  show ?thesis
    using r k s t u handle_no_filter_raises_command_error [OF r k s t u, of empty_world]
    by simp
qed

subsection \<open>An identifier that does not parse\<close>

text \<open>
  Claim C2. If at least one of the strings given to \<^verbatim>\<open>get_course_keys\<close> is not a
  course key, the result is the process exit with status 1: neither a
  \<^verbatim>\<open>CommandError\<close> nor a returned list.
\<close>

theorem get_course_keys_invalid_key_exits:
  assumes "\<exists>c\<in>set cs. parse c = None"
  shows "fst (get_course_keys parse (Some cs) w) = Inl (SystemExit 1)"
proof -
  from assms have "cs \<noteq> []" by auto
  then show ?thesis
    using assms by (simp add: get_course_keys_def truthy_def Let_def loop_some_invalid)
qed

theorem get_course_keys_invalid_key_exits_witness:
  "(\<exists>c\<in>set [''course-v1:edX+DemoX+Demo_Course'', ''DemoX'']. sample_from_string c = None) \<and>
   fst (get_course_keys sample_from_string
          (Some [''course-v1:edX+DemoX+Demo_Course'', ''DemoX'']) empty_world)
     = Inl (SystemExit 1)"
proof -
  have h: "\<exists>c\<in>set [''course-v1:edX+DemoX+Demo_Course'', ''DemoX'']. sample_from_string c = None"
    by (simp add: sample_from_string_def)
  show ?thesis
    using h get_course_keys_invalid_key_exits [OF h, of empty_world] by simp
qed

subsection \<open>A disabled configuration record\<close>

text \<open>
  Claim C3. With \<^verbatim>\<open>--args-from-database\<close> and a configuration record that is not
  enabled, \<^verbatim>\<open>handle\<close> raises \<^verbatim>\<open>CommandError\<close> and nothing else has happened:
  the state is the one it started in, and neither the arguments string nor the
  parser nor any other part of the environment has a say in the result.
\<close>

theorem handle_disabled_config_raises:
  assumes "args_from_database cmdline"
    and "\<not> enabled (current_config e)"
  shows "handle e cmdline w = (Inl (CommandError disabled_message), w)"
  using assms
  by (simp add: handle_def resolve_options_def database_or_command_line_def
      get_args_from_database_def)

theorem handle_disabled_config_raises_witness:
  "args_from_database (default_options\<lparr>args_from_database := True\<rparr>) \<and>
   \<not> enabled (current_config
        (sample_env\<lparr>current_config := \<lparr>enabled = False, arguments = ''--dry-run''\<rparr>\<rparr>)) \<and>
   handle (sample_env\<lparr>current_config := \<lparr>enabled = False, arguments = ''--dry-run''\<rparr>\<rparr>)
     (default_options\<lparr>args_from_database := True\<rparr>) empty_world
     = (Inl (CommandError disabled_message), empty_world)"
proof -
  have a: "args_from_database (default_options\<lparr>args_from_database := True\<rparr>)" by simp
  have b: "\<not> enabled (current_config
        (sample_env\<lparr>current_config := \<lparr>enabled = False, arguments = ''--dry-run''\<rparr>\<rparr>))"
    by simp
  show ?thesis
    using a b handle_disabled_config_raises [OF a b, of empty_world] by simp
qed

subsection \<open>A valid run enqueues one job\<close>

text \<open>
  Claim C4. When the options resolve, every course identifier parses and a filter is
  present, \<^verbatim>\<open>handle\<close> returns normally and the task queue has grown by exactly
  one job, whose arguments are the resolved options and the resolved list of
  course keys.
\<close>

theorem handle_valid_enqueues_one_job:
  assumes "resolve_options e cmdline = Inr options"
    and "fst (get_course_keys (from_string e) (courses options) w0) = Inr course_keys"
    and "course_keys \<noteq> [] \<or> start_date options \<noteq> None
           \<or> end_date options \<noteq> None \<or> truthy (user_ids options)"
  shows "\<exists>w'. handle e cmdline w = (Inr (), w') \<and>
               task_queue w' = task_queue w @ [(options, course_keys)]"
proof -
  let ?w1 = "log_write
            (Info_starting (dry_run options) (site options) (delay options)
               (page_size options) (start_date options) (end_date options)
               (notify_programs options) (user_ids options) (auto options)) w"
  from get_course_keys_Inr [OF assms(2), of ?w1] obtain w2 where
    g: "get_course_keys (from_string e) (courses options) ?w1 = (Inr course_keys, w2)"
    and q: "task_queue w2 = task_queue ?w1"
    by blast
  have "handle e cmdline w = (Inr (), task_delay options course_keys w2)"
    using assms(1) assms(3) g by (simp add: handle_resolved Let_def)
  moreover have "task_queue (task_delay options course_keys w2)
                   = task_queue w @ [(options, course_keys)]"
    using q by (simp add: task_delay_def log_write_def)
  ultimately show ?thesis by blast
qed

text \<open>One course on the command line of the sample environment.\<close>

theorem handle_valid_enqueues_one_job_witness:
  "resolve_options sample_env
       (default_options\<lparr>courses := Some [''course-v1:edX+DemoX+Demo_Course'']\<rparr>)
     = Inr (default_options\<lparr>courses := Some [''course-v1:edX+DemoX+Demo_Course'']\<rparr>) \<and>
   fst (get_course_keys (from_string sample_env)
          (courses (default_options\<lparr>courses := Some [''course-v1:edX+DemoX+Demo_Course'']\<rparr>))
          empty_world)
     = Inr [''course-v1:edX+DemoX+Demo_Course''] \<and>
   (\<exists>w'. handle sample_env
            (default_options\<lparr>courses := Some [''course-v1:edX+DemoX+Demo_Course'']\<rparr>)
            empty_world = (Inr (), w') \<and>
         task_queue w' =
           [(default_options\<lparr>courses := Some [''course-v1:edX+DemoX+Demo_Course'']\<rparr>,
             [''course-v1:edX+DemoX+Demo_Course''])])"
proof -
  let ?c = "default_options\<lparr>courses := Some [''course-v1:edX+DemoX+Demo_Course'']\<rparr>"
  have r: "resolve_options sample_env ?c = Inr ?c"
    by (simp add: resolve_options_def database_or_command_line_def auto_window_def
        default_options_def)
  have k: "fst (get_course_keys (from_string sample_env) (courses ?c) empty_world)
             = Inr [''course-v1:edX+DemoX+Demo_Course'']"
    by (simp add: get_course_keys_def truthy_def Let_def sample_env_def sample_from_string_def)
  have f: "[''course-v1:edX+DemoX+Demo_Course''] \<noteq> [] \<or> start_date ?c \<noteq> None
             \<or> end_date ?c \<noteq> None \<or> truthy (user_ids ?c)"
    by simp
  show ?thesis
    using r k handle_valid_enqueues_one_job [OF r k f, of empty_world]
    by (simp add: empty_world_def)
qed

subsection \<open>A failed validation writes no job\<close>

text \<open>
  Claim C5. If validation fails (the configuration record asked for is disabled, or
  the options resolve and one course identifier does not parse, or the options
  resolve and no filter is left), \<^verbatim>\<open>handle\<close> ends in a failure and the task
  queue is the one it started with.
\<close>

theorem handle_invalid_writes_no_job:
  assumes "(args_from_database cmdline \<and> \<not> enabled (current_config e)) \<or>
           (\<exists>options. resolve_options e cmdline = Inr options \<and>
              ((\<exists>cs. courses options = Some cs \<and> (\<exists>c\<in>set cs. from_string e c = None)) \<or>
               (fst (get_course_keys (from_string e) (courses options) w0) = Inr [] \<and>
                start_date options = None \<and> end_date options = None \<and>
                user_ids options = None)))"
  shows "\<exists>err w'. handle e cmdline w = (Inl err, w') \<and> task_queue w' = task_queue w"
proof -
  have "\<exists>err. fst (handle e cmdline w) = Inl err"
    using assms
  proof (elim disjE conjE exE)
    assume "args_from_database cmdline" "\<not> enabled (current_config e)"
    then show ?thesis
      by (simp add: handle_def resolve_options_def database_or_command_line_def
          get_args_from_database_def)
  next
    fix options cs
    assume r: "resolve_options e cmdline = Inr options"
      and c: "courses options = Some cs" and b: "\<exists>c\<in>set cs. from_string e c = None"
    let ?w1 = "log_write
            (Info_starting (dry_run options) (site options) (delay options)
               (page_size options) (start_date options) (end_date options)
               (notify_programs options) (user_ids options) (auto options)) w"
    from b have "cs \<noteq> []" by auto
    with b have "fst (get_course_keys (from_string e) (Some cs) ?w1) = Inl (SystemExit 1)"
      by (simp add: get_course_keys_def truthy_def Let_def loop_some_invalid)
    then obtain w2 where
      "get_course_keys (from_string e) (courses options) ?w1 = (Inl (SystemExit 1), w2)"
      using c by (cases "get_course_keys (from_string e) (Some cs) ?w1") auto
    with r show ?thesis by (simp add: handle_resolved Let_def)
  next
    fix options
    assume r: "resolve_options e cmdline = Inr options"
      and k: "fst (get_course_keys (from_string e) (courses options) w0) = Inr []"
      and "start_date options = None" "end_date options = None" "user_ids options = None"
    let ?w1 = "log_write
            (Info_starting (dry_run options) (site options) (delay options)
               (page_size options) (start_date options) (end_date options)
               (notify_programs options) (user_ids options) (auto options)) w"
    from get_course_keys_Inr [OF k, of ?w1] obtain w2 where
      "get_course_keys (from_string e) (courses options) ?w1 = (Inr [], w2)"
      by blast
    with r \<open>start_date options = None\<close> \<open>end_date options = None\<close>
      \<open>user_ids options = None\<close>
    show ?thesis by (simp add: handle_resolved Let_def truthy_def)
  qed
  then obtain err w' where h: "handle e cmdline w = (Inl err, w')"
    by (cases "handle e cmdline w") auto
  from handle_failure_queue [OF h] h show ?thesis by blast
qed

text \<open>
  A run of the sample environment whose second course identifier does not parse,
  started with one job already in the queue.
\<close>

theorem handle_invalid_writes_no_job_witness:
  "resolve_options sample_env
       (default_options\<lparr>courses := Some [''course-v1:edX+DemoX+Demo_Course'', ''DemoX'']\<rparr>)
     = Inr (default_options\<lparr>courses := Some [''course-v1:edX+DemoX+Demo_Course'', ''DemoX'']\<rparr>) \<and>
   (\<exists>c\<in>set [''course-v1:edX+DemoX+Demo_Course'', ''DemoX'']. from_string sample_env c = None) \<and>
   (\<exists>err w'. handle sample_env
       (default_options\<lparr>courses := Some [''course-v1:edX+DemoX+Demo_Course'', ''DemoX'']\<rparr>)
       (empty_world\<lparr>task_queue := [(default_options, [])]\<rparr>) = (Inl err, w') \<and>
       task_queue w' = [(default_options, [])])"
proof -
  let ?c = "default_options\<lparr>courses := Some [''course-v1:edX+DemoX+Demo_Course'', ''DemoX'']\<rparr>"
  have r: "resolve_options sample_env ?c = Inr ?c"
    by (simp add: resolve_options_def database_or_command_line_def auto_window_def
        default_options_def)
  have b: "\<exists>c\<in>set [''course-v1:edX+DemoX+Demo_Course'', ''DemoX'']. from_string sample_env c = None"
    by (simp add: sample_env_def sample_from_string_def)
  have "(args_from_database ?c \<and> \<not> enabled (current_config sample_env)) \<or>
           (\<exists>options. resolve_options sample_env ?c = Inr options \<and>
              ((\<exists>cs. courses options = Some cs \<and> (\<exists>c\<in>set cs. from_string sample_env c = None)) \<or>
               (fst (get_course_keys (from_string sample_env) (courses options) empty_world) = Inr [] \<and>
                start_date options = None \<and> end_date options = None \<and>
                user_ids options = None)))"
    using r b by simp
  from handle_invalid_writes_no_job [OF this,
      of "empty_world\<lparr>task_queue := [(default_options, [])]\<rparr>"] r b
  show ?thesis by simp
qed

subsection \<open>What reaches the task\<close>

text \<open>
  Claim C6, as amended. Without \<^verbatim>\<open>--args-from-database\<close>, the options the task
  receives are the command-line options themselves when \<^verbatim>\<open>--auto\<close> is not set;
  with \<^verbatim>\<open>--auto\<close> they are the command-line options with \<^verbatim>\<open>end_date\<close> replaced by
  the start of the current hour and \<^verbatim>\<open>start_date\<close> by the datetime four hours
  before it, every other option as given. A run whose course identifiers parse
  reaches the dispatch when a filter is present or, with \<^verbatim>\<open>--auto\<close>, when the
  subtraction of the four hours does not overflow; and every run that reaches
  the dispatch enqueues exactly this job.
\<close>

theorem handle_forwards_command_line_options:
  assumes "\<not> args_from_database cmdline"
  shows "(\<forall>course_keys.
            \<not> auto cmdline \<and>
            fst (get_course_keys (from_string e) (courses cmdline) w0) = Inr course_keys \<and>
            (course_keys \<noteq> [] \<or> start_date cmdline \<noteq> None
               \<or> end_date cmdline \<noteq> None \<or> truthy (user_ids cmdline)) \<longrightarrow>
            (\<exists>w'. handle e cmdline w = (Inr (), w') \<and>
                  task_queue w' = task_queue w @ [(cmdline, course_keys)])) \<and>
         (\<forall>course_keys start_dt.
            auto cmdline \<and>
            fst (get_course_keys (from_string e) (courses cmdline) w0) = Inr course_keys \<and>
            minus_hours (hour_start (now e)) 4 = Inr start_dt \<longrightarrow>
            (\<exists>w'. handle e cmdline w = (Inr (), w') \<and>
                  task_queue w' = task_queue w
                    @ [(cmdline\<lparr>end_date := Some (hour_start (now e)),
                                 start_date := Some start_dt\<rparr>, course_keys)])) \<and>
         (\<forall>w'. handle e cmdline w = (Inr (), w') \<longrightarrow>
            (\<exists>sent course_keys.
               task_queue w' = task_queue w @ [(sent, course_keys)] \<and>
               (\<not> auto cmdline \<longrightarrow> sent = cmdline) \<and>
               (auto cmdline \<longrightarrow>
                  (\<exists>start_dt. minus_hours (hour_start (now e)) 4 = Inr start_dt \<and>
                     sent = cmdline\<lparr>end_date := Some (hour_start (now e)),
                                     start_date := Some start_dt\<rparr>))))"
proof (intro conjI allI impI)
  fix course_keys
  assume a: "\<not> auto cmdline \<and>
            fst (get_course_keys (from_string e) (courses cmdline) w0) = Inr course_keys \<and>
            (course_keys \<noteq> [] \<or> start_date cmdline \<noteq> None
               \<or> end_date cmdline \<noteq> None \<or> truthy (user_ids cmdline))"
  then have "resolve_options e cmdline = Inr cmdline"
    using assms by (simp add: resolve_command_line auto_window_off)
  from handle_enqueues [OF this] a
  show "\<exists>w'. handle e cmdline w = (Inr (), w') \<and>
             task_queue w' = task_queue w @ [(cmdline, course_keys)]"
    by blast
next
  fix course_keys start_dt
  assume a: "auto cmdline \<and>
            fst (get_course_keys (from_string e) (courses cmdline) w0) = Inr course_keys \<and>
            minus_hours (hour_start (now e)) 4 = Inr start_dt"
  then have x: "auto_window (now e) cmdline
       = Inr (cmdline\<lparr>end_date := Some (hour_start (now e)), start_date := Some start_dt\<rparr>)"
    by (simp add: auto_window_on)
  from a have k: "fst (get_course_keys (from_string e) (courses cmdline) w0) = Inr course_keys"
    by simp
  from handle_enqueues_window [OF x resolve_command_line [OF assms] k]
  show "\<exists>w'. handle e cmdline w = (Inr (), w') \<and>
             task_queue w' = task_queue w
               @ [(cmdline\<lparr>end_date := Some (hour_start (now e)),
                            start_date := Some start_dt\<rparr>, course_keys)]" .
next
  fix w'
  assume "handle e cmdline w = (Inr (), w')"
  from handle_success [OF this] obtain sent course_keys where
    r: "resolve_options e cmdline = Inr sent"
    and q: "task_queue w' = task_queue w @ [(sent, course_keys)]"
    by blast
  from r have "auto_window (now e) cmdline = Inr sent"
    by (simp add: resolve_command_line [OF assms])
  from auto_window_result [OF this] q
  show "\<exists>sent course_keys.
               task_queue w' = task_queue w @ [(sent, course_keys)] \<and>
               (\<not> auto cmdline \<longrightarrow> sent = cmdline) \<and>
               (auto cmdline \<longrightarrow>
                  (\<exists>start_dt. minus_hours (hour_start (now e)) 4 = Inr start_dt \<and>
                     sent = cmdline\<lparr>end_date := Some (hour_start (now e)),
                                     start_date := Some start_dt\<rparr>))"
    by blast
qed


text \<open>
  At 02:41:07.125 on day 738000, a dry run with \<^verbatim>\<open>--auto\<close> and an \<^verbatim>\<open>--end-date\<close>:
  the task receives the window from 22:00 of the day before to 02:00, and
  \<^verbatim>\<open>dry_run\<close> as given.
\<close>

theorem handle_forwards_command_line_options_witness:
  "\<not> args_from_database
       (default_options\<lparr>dry_run := True, auto := True,
          end_date := Some \<lparr>ordinal = 736846, hour = 0, minute = 0, second = 0,
                             microsecond = 0, tzinfo = Some UTC\<rparr>\<rparr>) \<and>
   (\<exists>w'. handle sample_env
       (default_options\<lparr>dry_run := True, auto := True,
          end_date := Some \<lparr>ordinal = 736846, hour = 0, minute = 0, second = 0,
                             microsecond = 0, tzinfo = Some UTC\<rparr>\<rparr>) empty_world = (Inr (), w') \<and>
     task_queue w' =
       [(default_options\<lparr>dry_run := True, auto := True,
           end_date := Some \<lparr>ordinal = 738000, hour = 2, minute = 0, second = 0,
                              microsecond = 0, tzinfo = None\<rparr>,
           start_date := Some \<lparr>ordinal = 737999, hour = 22, minute = 0, second = 0,
                                microsecond = 0, tzinfo = None\<rparr>\<rparr>, [])])"
proof -
  let ?c = "default_options\<lparr>dry_run := True, auto := True,
          end_date := Some \<lparr>ordinal = 736846, hour = 0, minute = 0, second = 0,
                             microsecond = 0, tzinfo = Some UTC\<rparr>\<rparr>"
  let ?s = "\<lparr>ordinal = 737999, hour = 22, minute = 0, second = 0,
                                microsecond = 0, tzinfo = None\<rparr>"
  have a: "\<not> args_from_database ?c" by (simp add: default_options_def)
  have b: "auto ?c" by simp
  have k: "fst (get_course_keys (from_string sample_env) (courses ?c) empty_world) = Inr []"
    by (simp add: get_course_keys_def truthy_def default_options_def)
  have m: "minus_hours (hour_start (now sample_env)) 4 = Inr ?s"
    by (simp add: minus_hours_def MAXORDINAL_def sample_env_def sample_now_def)
  have n: "hour_start (now sample_env)
             = \<lparr>ordinal = 738000, hour = 2, minute = 0, second = 0,
                 microsecond = 0, tzinfo = None\<rparr>"
    by (simp add: sample_env_def sample_now_def)
  from handle_forwards_command_line_options [OF a, of sample_env empty_world empty_world]
  have "\<exists>w'. handle sample_env ?c empty_world = (Inr (), w') \<and>
             task_queue w' = task_queue empty_world
               @ [(?c\<lparr>end_date := Some (hour_start (now sample_env)),
                       start_date := Some ?s\<rparr>, [])]"
    using b k m by blast
  then show ?thesis
    using a n by (simp add: empty_world_def)
qed

text \<open>
  As first stated (every option of the command line reaches the task unmodified),
  the claim fails on a run with \<^verbatim>\<open>--auto\<close> and \<^verbatim>\<open>--start-date 2018-06-01\<close>: the
  task is given the start of the four-hour window instead.
\<close>

theorem forwarding_verbatim_counterexample:
  "fst (handle sample_env
       (default_options\<lparr>auto := True,
          start_date := Some \<lparr>ordinal = 736846, hour = 0, minute = 0, second = 0,
                               microsecond = 0, tzinfo = Some UTC\<rparr>\<rparr>) empty_world) = Inr () \<and>
   map (\<lambda>job. start_date (fst job)) (task_queue (snd (handle sample_env
       (default_options\<lparr>auto := True,
          start_date := Some \<lparr>ordinal = 736846, hour = 0, minute = 0, second = 0,
                               microsecond = 0, tzinfo = Some UTC\<rparr>\<rparr>) empty_world)))
     = [Some \<lparr>ordinal = 737999, hour = 22, minute = 0, second = 0, microsecond = 0,
               tzinfo = None\<rparr>]"
  by (simp add: run_defs)

subsection \<open>Options from the database\<close>




subsection \<open>Parsed times carry a time zone\<close>

text \<open>
  Claim C8. For every string the date parser accepts, \<^verbatim>\<open>parsetime\<close> returns a
  datetime with a time zone: the parsed value with \<^verbatim>\<open>tzinfo\<close> set to UTC when
  it had none, and the parsed value itself, time zone included, otherwise.
\<close>

theorem parsetime_timezone_aware:
  assumes "dateutil_parse timestr = Inr dt"
  shows "\<exists>r. parsetime dateutil_parse timestr = Inr r \<and> tzinfo r \<noteq> None \<and>
             (tzinfo dt = None \<longrightarrow> r = dt\<lparr>tzinfo := Some UTC\<rparr>) \<and>
             (tzinfo dt \<noteq> None \<longrightarrow> r = dt)"
  using assms by (simp add: parsetime_def)

text \<open>
  A parser that reads \<^verbatim>\<open>2018-06-01\<close> as a naive midnight: \<^verbatim>\<open>parsetime\<close> makes it
  midnight UTC.
\<close>

theorem parsetime_timezone_aware_witness:
  "(\<lambda>s. if s = ''2018-06-01''
        then Inr \<lparr>ordinal = 736846, hour = 0, minute = 0, second = 0, microsecond = 0,
                  tzinfo = None\<rparr>
        else Inl ValueError) ''2018-06-01''
     = Inr \<lparr>ordinal = 736846, hour = 0, minute = 0, second = 0, microsecond = 0,
             tzinfo = None\<rparr> \<and>
   parsetime (\<lambda>s. if s = ''2018-06-01''
        then Inr \<lparr>ordinal = 736846, hour = 0, minute = 0, second = 0, microsecond = 0,
                  tzinfo = None\<rparr>
        else Inl ValueError) ''2018-06-01''
     = Inr \<lparr>ordinal = 736846, hour = 0, minute = 0, second = 0, microsecond = 0,
             tzinfo = Some UTC\<rparr>"
proof -
  let ?p = "\<lambda>s. if s = ''2018-06-01''
        then Inr \<lparr>ordinal = 736846, hour = 0, minute = 0, second = 0, microsecond = 0,
                  tzinfo = None\<rparr>
        else Inl ValueError"
  have h: "?p ''2018-06-01''
     = Inr \<lparr>ordinal = 736846, hour = 0, minute = 0, second = 0, microsecond = 0,
             tzinfo = None\<rparr>"
    by simp
  from parsetime_timezone_aware [of ?p, OF h] show ?thesis by simp
qed

subsection \<open>Course keys in order\<close>

text \<open>
  Claim C9. When every string parses, \<^verbatim>\<open>get_course_keys\<close> returns a list as long
  as its input whose i-th element is \<^verbatim>\<open>CourseKey.from_string\<close> of the i-th
  string; for \<open>None\<close> and for the empty list it returns the empty list (it never
  looks the courses up anywhere else).
\<close>

theorem get_course_keys_parses_in_order:
  assumes "\<forall>c\<in>set cs. parse c \<noteq> None"
  shows "(\<exists>keys. fst (get_course_keys parse (Some cs) w) = Inr keys \<and>
            length keys = length cs \<and>
            (\<forall>i<length cs. parse (cs ! i) = Some (keys ! i))) \<and>
         fst (get_course_keys parse None w) = Inr [] \<and>
         fst (get_course_keys parse (Some []) w) = Inr []"
proof -
  have "fst (get_course_keys parse (Some cs) w) = Inr (map (the \<circ> parse) cs)"
    using assms
    by (simp add: get_course_keys_def truthy_def Let_def loop_all_parse
        del: course_keys_loop.simps)
  moreover have "\<forall>i<length cs. parse (cs ! i) = Some (map (the \<circ> parse) cs ! i)"
    using assms by auto
  moreover have "fst (get_course_keys parse None w) = Inr []"
    by (simp add: get_course_keys_def truthy_def)
  moreover have "fst (get_course_keys parse (Some []) w) = Inr []"
    by (simp add: get_course_keys_def truthy_def)
  ultimately show ?thesis by simp
qed

text \<open>Two identifiers of the sample environment, returned in the order given.\<close>

theorem get_course_keys_parses_in_order_witness:
  "sample_from_string ''course-v1:edX+DemoX+Demo_Course'' \<noteq> None \<and>
   sample_from_string ''course-v1:edX+RecordsSelfPaced+1'' \<noteq> None \<and>
   fst (get_course_keys sample_from_string
          (Some [''course-v1:edX+DemoX+Demo_Course'', ''course-v1:edX+RecordsSelfPaced+1''])
          empty_world)
     = Inr [''course-v1:edX+DemoX+Demo_Course'', ''course-v1:edX+RecordsSelfPaced+1''] \<and>
   fst (get_course_keys sample_from_string None empty_world) = Inr []"
proof -
  have h: "\<forall>c\<in>set [''course-v1:edX+DemoX+Demo_Course'', ''course-v1:edX+RecordsSelfPaced+1''].
        sample_from_string c \<noteq> None"
    by (simp add: sample_from_string_def)
  have v: "fst (get_course_keys sample_from_string
          (Some [''course-v1:edX+DemoX+Demo_Course'', ''course-v1:edX+RecordsSelfPaced+1''])
          empty_world)
     = Inr [''course-v1:edX+DemoX+Demo_Course'', ''course-v1:edX+RecordsSelfPaced+1'']"
    by (simp add: get_course_keys_def truthy_def Let_def sample_from_string_def)
  from get_course_keys_parses_in_order [OF h, of empty_world] h v
  show ?thesis by simp
qed



subsection \<open>The automatic window\<close>

text \<open>
  Claim C10, as amended. When the options the run works with (those of the command
  line, or with \<^verbatim>\<open>--args-from-database\<close> those parsed from the record) have
  \<^verbatim>\<open>auto\<close> set, and the clock shows a valid datetime not within the first four hours
  of day 1, the resolved \<^verbatim>\<open>end_date\<close> is the clock's reading with minute, second
  and microsecond zeroed, the resolved \<^verbatim>\<open>start_date\<close> lies exactly four hours
  before it, whatever dates were supplied, and \<^verbatim>\<open>handle\<close> does not raise the
  \<^verbatim>\<open>CommandError\<close> that asks for a filter.
\<close>

theorem auto_resolves_four_hour_window:
  assumes "database_or_command_line e cmdline = Inr options"
    and "auto options"
    and "valid_datetime (now e)"
    and "1 < ordinal (now e) \<or> 4 \<le> hour (now e)"
  shows "\<exists>end_dt start_dt.
           resolve_options e cmdline
             = Inr (options\<lparr>end_date := Some end_dt, start_date := Some start_dt\<rparr>) \<and>
           end_dt = (now e)\<lparr>minute := 0, second := 0, microsecond := 0\<rparr> \<and>
           wall_clock_us start_dt = wall_clock_us end_dt - 4 * 3600 * 1000000 \<and>
           valid_datetime start_dt \<and> tzinfo start_dt = tzinfo (now e) \<and>
           fst (handle e cmdline w) \<noteq> Inl (CommandError no_filter_message)"
proof -
  let ?end = "(now e)\<lparr>minute := 0, second := 0, microsecond := 0\<rparr>"
  let ?start = "if 4 \<le> hour ?end then ?end\<lparr>hour := hour ?end - 4\<rparr>
                else ?end\<lparr>ordinal := ordinal ?end - 1, hour := hour ?end + 20\<rparr>"
  from assms(3) have v: "1 \<le> ordinal (now e)" "ordinal (now e) \<le> MAXORDINAL"
    "0 \<le> hour (now e)" "hour (now e) < 24"
    by (simp_all add: valid_datetime_def)
  have m: "minus_hours ?end 4 = Inr ?start"
    by (rule minus_four_hours) (use v assms(4) in simp_all)
  have r: "resolve_options e cmdline
             = Inr (options\<lparr>end_date := Some ?end, start_date := Some ?start\<rparr>)"
    using assms(1,2) m by (simp add: resolve_options_def auto_window_def Let_def)
  have c: "wall_clock_us ?start = wall_clock_us ?end - 4 * 3600 * 1000000"
    by (simp add: wall_clock_us_def)
  have s: "valid_datetime ?start"
    using v assms(4) by (auto simp: valid_datetime_def)
  have t: "tzinfo ?start = tzinfo (now e)" by simp
  have "start_date (options\<lparr>end_date := Some ?end, start_date := Some ?start\<rparr>) \<noteq> None"
    by simp
  from handle_with_start_date [OF r this]
  have h: "fst (handle e cmdline w) \<noteq> Inl (CommandError no_filter_message)" .
  from r c s t h show ?thesis by blast
qed

text \<open>
  At 02:41:07.125 on day 738000, \<^verbatim>\<open>--auto\<close> together with a \<^verbatim>\<open>--start-date\<close>
  resolves to the window from 22:00 of the day before to 02:00.
\<close>

theorem auto_resolves_four_hour_window_witness:
  "database_or_command_line sample_env
       (default_options\<lparr>auto := True,
          start_date := Some \<lparr>ordinal = 736846, hour = 0, minute = 0, second = 0,
                               microsecond = 0, tzinfo = Some UTC\<rparr>\<rparr>)
     = Inr (default_options\<lparr>auto := True,
          start_date := Some \<lparr>ordinal = 736846, hour = 0, minute = 0, second = 0,
                               microsecond = 0, tzinfo = Some UTC\<rparr>\<rparr>) \<and>
   auto (default_options\<lparr>auto := True,
          start_date := Some \<lparr>ordinal = 736846, hour = 0, minute = 0, second = 0,
                               microsecond = 0, tzinfo = Some UTC\<rparr>\<rparr>) \<and>
   valid_datetime (now sample_env) \<and> 1 < ordinal (now sample_env) \<and>
   resolve_options sample_env
       (default_options\<lparr>auto := True,
          start_date := Some \<lparr>ordinal = 736846, hour = 0, minute = 0, second = 0,
                               microsecond = 0, tzinfo = Some UTC\<rparr>\<rparr>)
     = Inr (default_options\<lparr>auto := True,
          start_date := Some \<lparr>ordinal = 737999, hour = 22, minute = 0, second = 0,
                               microsecond = 0, tzinfo = None\<rparr>,
          end_date := Some \<lparr>ordinal = 738000, hour = 2, minute = 0, second = 0,
                             microsecond = 0, tzinfo = None\<rparr>\<rparr>) \<and>
   fst (handle sample_env
       (default_options\<lparr>auto := True,
          start_date := Some \<lparr>ordinal = 736846, hour = 0, minute = 0, second = 0,
                               microsecond = 0, tzinfo = Some UTC\<rparr>\<rparr>) empty_world)
     \<noteq> Inl (CommandError no_filter_message)"
proof -
  let ?c = "default_options\<lparr>auto := True,
          start_date := Some \<lparr>ordinal = 736846, hour = 0, minute = 0, second = 0,
                               microsecond = 0, tzinfo = Some UTC\<rparr>\<rparr>"
  have a: "database_or_command_line sample_env ?c = Inr ?c"
    by (simp add: database_or_command_line_def default_options_def)
  have b: "auto ?c" by simp
  have c: "valid_datetime (now sample_env)"
    by (simp add: valid_datetime_def MAXORDINAL_def sample_env_def sample_now_def)
  have d: "1 < ordinal (now sample_env)"
    by (simp add: sample_env_def sample_now_def)
  then have d': "1 < ordinal (now sample_env) \<or> 4 \<le> hour (now sample_env)" ..
  have r: "resolve_options sample_env ?c
     = Inr (default_options\<lparr>auto := True,
          start_date := Some \<lparr>ordinal = 737999, hour = 22, minute = 0, second = 0,
                               microsecond = 0, tzinfo = None\<rparr>,
          end_date := Some \<lparr>ordinal = 738000, hour = 2, minute = 0, second = 0,
                             microsecond = 0, tzinfo = None\<rparr>\<rparr>)"
    by (simp add: run_defs)
  from auto_resolves_four_hour_window [OF a b c d', of empty_world]
  have h: "fst (handle sample_env ?c empty_world) \<noteq> Inl (CommandError no_filter_message)"
    by blast
  show ?thesis
    by (intro conjI) (rule a b c d r h)+
qed

text \<open>
  As first stated (every invocation with \<^verbatim>\<open>--auto\<close>), the claim fails when
  \<^verbatim>\<open>--args-from-database\<close> is given too and the record's arguments are empty: the
  options of the run are the parser's defaults, \<^verbatim>\<open>auto\<close> is off in them, and the
  run ends with the \<^verbatim>\<open>CommandError\<close> that asks for a filter.
\<close>

theorem auto_with_database_arguments_counterexample:
  "auto (default_options\<lparr>auto := True, args_from_database := True\<rparr>) \<and>
   fst (handle sample_env (default_options\<lparr>auto := True, args_from_database := True\<rparr>)
          empty_world)
     = Inl (CommandError no_filter_message)"
  by (simp add: run_defs)

end
